theory Spec2Isabelle
  imports Main
begin

section \<open>JavaScript values, objects and the heap\<close>

text \<open>
  The session module of kiyoi (\<^verbatim>\<open>Session\<close>, \<^verbatim>\<open>expires\<close>, \<^verbatim>\<open>idle\<close>) and
  \<^verbatim>\<open>mergeCookies\<close>, embedded function by function.

  A JavaScript number is modelled on its integer fragment (timestamps in milliseconds,
  whole seconds) together with \<open>NaN\<close>. A session is an object: a finite map from
  property names to primitive values, living in a heap, so that a hook which mutates the
  object it is given and a hook which returns another object are different things.
\<close>

datatype number = Num int | NaN

datatype jsval = JUndefined | JNull | JBool bool | JNumber number | JString string

type_synonym obj = "string \<rightharpoonup> jsval"

type_synonym ref = nat

type_synonym heap = "obj list"

datatype exn = Error string

text \<open>A new object gets the next free address.\<close>

definition alloc :: "heap \<Rightarrow> obj \<Rightarrow> ref \<times> heap" where
  "alloc h ob = (length h, h @ [ob])"

text \<open>\<^verbatim>\<open>o.k\<close>: a missing property reads as \<^verbatim>\<open>undefined\<close>.\<close>

definition get_prop :: "obj \<Rightarrow> string \<Rightarrow> jsval" where
  "get_prop ob k = (case ob k of None \<Rightarrow> JUndefined | Some v \<Rightarrow> v)"

text \<open>\<^verbatim>\<open>session.k = v\<close> on the object at address \<open>a\<close>.\<close>

definition set_prop :: "heap \<Rightarrow> ref \<Rightarrow> string \<Rightarrow> jsval \<Rightarrow> heap" where
  "set_prop h a k v = h[a := (h ! a)(k \<mapsto> v)]"

text \<open>
  What the code reads from the JavaScript runtime: the clock behind \<^verbatim>\<open>Date.now()\<close> and
  the built-in conversions between strings and numbers, which the arithmetic operators
  apply to a string operand. The conversions are parameters.
\<close>

record runtime =
  Date_now :: int
  StringToNumber :: "string \<Rightarrow> number"
  NumberToString :: "number \<Rightarrow> string"

definition ToNumber :: "runtime \<Rightarrow> jsval \<Rightarrow> number" where
  "ToNumber rt v =
     (case v of
        JUndefined \<Rightarrow> NaN
      | JNull \<Rightarrow> Num 0
      | JBool b \<Rightarrow> Num (if b then 1 else 0)
      | JNumber n \<Rightarrow> n
      | JString s \<Rightarrow> StringToNumber rt s)"

text \<open>\<^verbatim>\<open>x - n\<close>, \<^verbatim>\<open>x + n\<close> and \<^verbatim>\<open>x > n\<close> for a right operand \<open>n\<close> that is a number.\<close>

definition js_minus :: "runtime \<Rightarrow> jsval \<Rightarrow> number \<Rightarrow> number" where
  "js_minus rt x n =
     (case (ToNumber rt x, n) of
        (Num a, Num b) \<Rightarrow> Num (a - b)
      | _ \<Rightarrow> NaN)"

definition js_plus :: "runtime \<Rightarrow> jsval \<Rightarrow> number \<Rightarrow> jsval" where
  "js_plus rt x n =
     (case x of
        JString s \<Rightarrow> JString (s @ NumberToString rt n)
      | _ \<Rightarrow> (case (ToNumber rt x, n) of
                (Num a, Num b) \<Rightarrow> JNumber (Num (a + b))
              | _ \<Rightarrow> JNumber NaN))"

definition js_gt :: "runtime \<Rightarrow> jsval \<Rightarrow> number \<Rightarrow> bool" where
  "js_gt rt x n =
     (case (ToNumber rt x, n) of
        (Num a, Num b) \<Rightarrow> a > b
      | _ \<Rightarrow> False)"

section \<open>Cookie stores\<close>

text \<open>
  Modelled from the spec: the cookie store collaborator (the framework's
  \<^verbatim>\<open>RequestCookies\<close> and \<^verbatim>\<open>ResponseCookies\<close>) is a jar mapping a cookie name to the
  cookie stored under it; \<^verbatim>\<open>get\<close> reads the name, \<^verbatim>\<open>set\<close> stores the value with the
  given options, \<^verbatim>\<open>delete\<close> removes the name and does nothing when it is absent.
\<close>

record cookie =
  cookie_value :: string
  maxAge :: "number option"
  httpOnly :: "bool option"
  sameSite :: "string option"
  path :: "string option"

type_synonym jar = "string \<rightharpoonup> cookie"

record NextRequest =
  req_cookies :: jar

record NextResponse =
  res_cookies :: jar

text \<open>
  A cookie store as the session module receives it: the framework's own jar, or the
  object built by \<^verbatim>\<open>mergeCookies\<close>, whose \<^verbatim>\<open>get\<close> is bound to the request's cookies
  and whose \<^verbatim>\<open>set\<close> and \<^verbatim>\<open>delete\<close> are bound to the response's. (Its \<^verbatim>\<open>getAll\<close>
  and \<^verbatim>\<open>has\<close>, which the session module never calls, are left out.)
\<close>

datatype cookie_store = ResponseCookies jar | Merged jar jar

definition mergeCookies :: "NextRequest \<Rightarrow> NextResponse \<Rightarrow> cookie_store" where
  "mergeCookies req res = Merged (req_cookies req) (res_cookies res)"

fun store_get :: "cookie_store \<Rightarrow> string \<Rightarrow> cookie option" where
  "store_get (ResponseCookies j) name = j name"
| "store_get (Merged rq rs) name = rq name"

fun store_set :: "cookie_store \<Rightarrow> string \<Rightarrow> cookie \<Rightarrow> cookie_store" where
  "store_set (ResponseCookies j) name c = ResponseCookies (j(name \<mapsto> c))"
| "store_set (Merged rq rs) name c = Merged rq (rs(name \<mapsto> c))"



section \<open>The session module\<close>

datatype crypto = Crypto nat

text \<open>
  A validator, typed \<^verbatim>\<open>(session) => boolean\<close>, reads the session and the runtime and
  answers, or throws; it is taken to be an observer, which leaves the session as it is.
  A create or touch hook, typed \<^verbatim>\<open>(session) => Session\<close>, gets the
  session's address and the heap; it may change the object in place or build another one,
  and returns the address of the session it hands back, or throws. A throw ends the call:
  the heap it leaves behind is not tracked.
\<close>

type_synonym validator = "runtime \<Rightarrow> obj \<Rightarrow> exn + bool"

type_synonym hook = "runtime \<Rightarrow> ref \<Rightarrow> heap \<Rightarrow> exn + (ref \<times> heap)"

record SessionPlugin =
  create :: "hook option"
  validate :: "validator option"
  touch :: "hook option"

datatype SessionError = NoCookie | InvalidCookie | ValidationFailed

text \<open>
  Modelled from the spec: the \<^verbatim>\<open>Result\<close> type of \<^verbatim>\<open>result.js\<close>, which is not among the
  sources, is a two-variant outcome built by \<^verbatim>\<open>Result.ok(value)\<close> and
  \<^verbatim>\<open>Result.error(kind)\<close>.
\<close>

datatype ('a, 'e) result = Ok 'a | Err 'e

text \<open>
  The module's state (\<^verbatim>\<open>sessionSecret\<close>, \<^verbatim>\<open>Session.crypto\<close>, the two registries), the
  heap and the runtime, together with the collaborators the module calls: \<^verbatim>\<open>nanoid()\<close>,
  whose \<open>n\<close>-th call returns \<open>nanoid_seq n\<close>, and \<^verbatim>\<open>Iron.seal\<close> and \<^verbatim>\<open>Iron.unseal\<close> (for a
  fixed choice of salt), which may reject. A registry is a JavaScript \<^verbatim>\<open>Map\<close>: its
  entries in insertion order.
\<close>

record world =
  sessionSecret :: "string option"
  crypto :: crypto
  validators :: "(string \<times> validator) list"
  touchListeners :: "(string \<times> hook) list"
  heap :: heap
  runtime :: runtime
  nanoid_calls :: nat
  nanoid_seq :: "nat \<Rightarrow> string"
  Iron_seal :: "crypto \<Rightarrow> obj \<Rightarrow> string \<Rightarrow> exn + string"
  Iron_unseal :: "crypto \<Rightarrow> string \<Rightarrow> string \<Rightarrow> exn + obj"

definition sessionName :: string where
  "sessionName = ''session''"

definition setSessionSecret :: "world \<Rightarrow> string \<Rightarrow> world" where
  "setSessionSecret w pw = w\<lparr>sessionSecret := Some pw\<rparr>"

text \<open>
  \<^verbatim>\<open>!sessionSecret\<close> is false, that is, the secret is a non-empty string. The code
  throws \<open>secret_error\<close> otherwise: an undefined secret and the empty string are both
  "not set".
\<close>

definition secret_set :: "world \<Rightarrow> bool" where
  "secret_set w = (case sessionSecret w of None \<Rightarrow> False | Some pw \<Rightarrow> pw \<noteq> [])"

definition secret_error :: exn where
  "secret_error = Error ''kiyoi: session secret is not set''"

text \<open>\<^verbatim>\<open>Map.set\<close>, \<^verbatim>\<open>Map.delete\<close> and \<^verbatim>\<open>Map.values\<close>.\<close>

fun map_set :: "'k \<Rightarrow> 'v \<Rightarrow> ('k \<times> 'v) list \<Rightarrow> ('k \<times> 'v) list" where
  "map_set k v [] = [(k, v)]"
| "map_set k v ((k', v') # m) = (if k' = k then (k, v) # m else (k', v') # map_set k v m)"

definition map_delete :: "'k \<Rightarrow> ('k \<times> 'v) list \<Rightarrow> ('k \<times> 'v) list" where
  "map_delete k m = filter (\<lambda>e. fst e \<noteq> k) m"

definition map_values :: "('k \<times> 'v) list \<Rightarrow> 'v list" where
  "map_values m = map snd m"

definition nanoid :: "world \<Rightarrow> string \<times> world" where
  "nanoid w = (nanoid_seq w (nanoid_calls w), w\<lparr>nanoid_calls := Suc (nanoid_calls w)\<rparr>)"

definition Session_id :: "world \<Rightarrow> string \<times> world" where
  "Session_id w = nanoid w"

text \<open>\<^verbatim>\<open>Session.validate\<close>: the loop over the registered validators.\<close>

fun run_validators :: "validator list \<Rightarrow> runtime \<Rightarrow> obj \<Rightarrow> exn + bool" where
  "run_validators [] rt session = Inr True"
| "run_validators (validator # rest) rt session =
     (case validator rt session of
        Inl e \<Rightarrow> Inl e
      | Inr ok \<Rightarrow> if \<not> ok then Inr False else run_validators rest rt session)"

definition Session_validate :: "world \<Rightarrow> ref \<Rightarrow> exn + bool" where
  "Session_validate w session =
     run_validators (map_values (validators w)) (runtime w) (heap w ! session)"

text \<open>
  \<^verbatim>\<open>Session.get\<close>. The unsealed payload is a new object. Whatever is thrown between
  \<^verbatim>\<open>try\<close> and \<^verbatim>\<open>catch\<close>, by unsealing or by validating, becomes \<open>InvalidCookie\<close>.
\<close>

definition Session_get ::
  "world \<Rightarrow> cookie_store \<Rightarrow> exn + ((ref, SessionError) result \<times> world)" where
  "Session_get w cookieStore =
     (case sessionSecret w of
        None \<Rightarrow> Inl secret_error
      | Some pw \<Rightarrow>
          if pw = [] then Inl secret_error
          else
            (case store_get cookieStore sessionName of
               None \<Rightarrow> Inr (Err NoCookie, w)
             | Some c \<Rightarrow>
                 (case Iron_unseal w (crypto w) (cookie_value c) pw of
                    Inl e \<Rightarrow> Inr (Err InvalidCookie, w)
                  | Inr payload \<Rightarrow>
                      (let (session, h) = alloc (heap w) payload;
                           w' = w\<lparr>heap := h\<rparr>
                       in case Session_validate w' session of
                            Inl e \<Rightarrow> Inr (Err InvalidCookie, w')
                          | Inr ok \<Rightarrow>
                              if \<not> ok then Inr (Err ValidationFailed, w')
                              else Inr (Ok session, w')))))"

text \<open>\<^verbatim>\<open>Session.save\<close>.\<close>

definition Session_save :: "world \<Rightarrow> ref \<Rightarrow> cookie_store \<Rightarrow> exn + cookie_store" where
  "Session_save w session cookieStore =
     (case sessionSecret w of
        None \<Rightarrow> Inl secret_error
      | Some pw \<Rightarrow>
          if pw = [] then Inl secret_error
          else
            (case Iron_seal w (crypto w) (heap w ! session) pw of
               Inl e \<Rightarrow> Inl e
             | Inr sealed \<Rightarrow>
                 Inr (store_set cookieStore sessionName
                       \<lparr>cookie_value = sealed,
                        maxAge = Some (js_minus (runtime w)
                                   (get_prop (heap w ! session) ''expires'')
                                   (Num (Date_now (runtime w)))),
                        httpOnly = Some True,
                        sameSite = Some ''lax'',
                        path = Some ''/''\<rparr>)))"


text \<open>
  \<^verbatim>\<open>Session.create\<close>: the object literal \<^verbatim>\<open>{ id: Session.id(), ...sessionData }\<close>
  writes \<^verbatim>\<open>id\<close> first and then copies the data's properties over it; the loop hands each
  create hook the session the previous one returned.
\<close>

fun run_create :: "SessionPlugin list \<Rightarrow> runtime \<Rightarrow> ref \<Rightarrow> heap \<Rightarrow> exn + (ref \<times> heap)" where
  "run_create [] rt session h = Inr (session, h)"
| "run_create (extension # rest) rt session h =
     (case create extension of
        None \<Rightarrow> run_create rest rt session h
      | Some f \<Rightarrow>
          (case f rt session h of
             Inl e \<Rightarrow> Inl e
           | Inr (session', h') \<Rightarrow> run_create rest rt session' h'))"

definition Session_create ::
  "world \<Rightarrow> obj \<Rightarrow> SessionPlugin list \<Rightarrow> exn + (ref \<times> world)" where
  "Session_create w sessionData extensions =
     (let (sid, w1) = Session_id w;
          (session, h) = alloc (heap w1) ([''id'' \<mapsto> JString sid] ++ sessionData)
      in case run_create extensions (runtime w1) session h of
           Inl e \<Rightarrow> Inl e
         | Inr (session', h') \<Rightarrow> Inr (session', w1\<lparr>heap := h'\<rparr>))"

text \<open>
  \<^verbatim>\<open>Session.touch\<close>: each toucher is called on the session; what it returns is dropped,
  and the session that was passed in is returned.
\<close>

fun run_touchers :: "hook list \<Rightarrow> runtime \<Rightarrow> ref \<Rightarrow> heap \<Rightarrow> exn + heap" where
  "run_touchers [] rt session h = Inr h"
| "run_touchers (toucher # rest) rt session h =
     (case toucher rt session h of
        Inl e \<Rightarrow> Inl e
      | Inr (returned, h') \<Rightarrow> run_touchers rest rt session h')"

definition Session_touch :: "world \<Rightarrow> ref \<Rightarrow> exn + (ref \<times> world)" where
  "Session_touch w session =
     (case run_touchers (map_values (touchListeners w)) (runtime w) session (heap w) of
        Inl e \<Rightarrow> Inl e
      | Inr h' \<Rightarrow> Inr (session, w\<lparr>heap := h'\<rparr>))"

text \<open>\<^verbatim>\<open>Session.onValidate\<close>, \<^verbatim>\<open>Session.onTouch\<close>, \<^verbatim>\<open>Session.removeListener\<close>.\<close>

definition onValidate :: "world \<Rightarrow> validator \<Rightarrow> string \<times> world" where
  "onValidate w fn =
     (let (ident, w1) = nanoid w
      in (''v,'' @ ident, w1\<lparr>validators := map_set ident fn (validators w1)\<rparr>))"

definition onTouch :: "world \<Rightarrow> hook \<Rightarrow> string \<times> world" where
  "onTouch w fn =
     (let (ident, w1) = nanoid w
      in (''t,'' @ ident, w1\<lparr>touchListeners := map_set ident fn (touchListeners w1)\<rparr>))"

definition startsWith :: "string \<Rightarrow> string \<Rightarrow> bool" where
  "startsWith s p = (take (length p) s = p)"

definition removeListener :: "world \<Rightarrow> string \<Rightarrow> world" where
  "removeListener w ident =
     (if startsWith ident ''v,'' then
        w\<lparr>validators := map_delete (drop 2 ident) (validators w)\<rparr>
      else if startsWith ident ''t,'' then
        w\<lparr>touchListeners := map_delete (drop 2 ident) (touchListeners w)\<rparr>
      else w)"

definition setCrypto :: "world \<Rightarrow> crypto \<Rightarrow> world" where
  "setCrypto w c = w\<lparr>crypto := c\<rparr>"

section \<open>The bundled plugins\<close>

definition expires_create :: "int \<Rightarrow> hook" where
  "expires_create seconds rt session h =
     Inr (session, set_prop h session ''expires'' (JNumber (Num (Date_now rt + seconds * 1000))))"

definition expires_validate :: validator where
  "expires_validate rt session = Inr (js_gt rt (get_prop session ''expires'') (Num (Date_now rt)))"

definition expires :: "int \<Rightarrow> SessionPlugin" where
  "expires seconds =
     \<lparr>create = Some (expires_create seconds), validate = Some expires_validate, touch = None\<rparr>"

definition idle_create :: hook where
  "idle_create rt session h =
     Inr (session, set_prop h session ''lastActive'' (JNumber (Num (Date_now rt))))"

definition idle_validate :: "int \<Rightarrow> validator" where
  "idle_validate seconds rt session =
     Inr (js_gt rt (js_plus rt (get_prop session ''lastActive'') (Num (seconds * 1000)))
            (Num (Date_now rt)))"

definition idle_touch :: hook where
  "idle_touch rt session h =
     Inr (session, set_prop h session ''lastActive'' (JNumber (Num (Date_now rt))))"

definition idle :: "int \<Rightarrow> SessionPlugin" where
  "idle seconds =
     \<lparr>create = Some idle_create, validate = Some (idle_validate seconds), touch = Some idle_touch\<rparr>"

section \<open>Specification predicates and example worlds\<close>

text \<open>
  A create hook that keeps the identifier: called on a live session it returns normally,
  and the session it hands back is live and has the \<^verbatim>\<open>id\<close> of the one it was given.
\<close>

definition keeps_id :: "hook \<Rightarrow> bool" where
  "keeps_id f =
     (\<forall>rt session h. session < length h \<longrightarrow>
        (\<exists>session' h'. f rt session h = Inr (session', h') \<and> session' < length h' \<and>
           get_prop (h' ! session') ''id'' = get_prop (h ! session) ''id''))"

text \<open>
  A small world on which the theorems below are instantiated: the clock stands at 1000,
  the \<open>n\<close>-th identifier is \<open>n + 1\<close> letters long, and a toy sealed box whose only token
  opens to \<open>session0\<close>, the session that \<^verbatim>\<open>Session.create({}, [expires(60)])\<close> builds
  there. \<open>world1\<close> is the world after that call.
\<close>

definition rt0 :: runtime where
  "rt0 = \<lparr>Date_now = 1000, StringToNumber = (\<lambda>s. NaN), NumberToString = (\<lambda>n. [])\<rparr>"

definition session0 :: obj where
  "session0 = [''id'' \<mapsto> JString ''a'', ''expires'' \<mapsto> JNumber (Num 61000)]"

definition secret0 :: string where
  "secret0 = ''correct horse battery staple 0123456789''"

definition world0 :: world where
  "world0 =
     \<lparr>sessionSecret = Some secret0,
      crypto = Crypto 0,
      validators = [],
      touchListeners = [],
      heap = [],
      runtime = rt0,
      nanoid_calls = 0,
      nanoid_seq = (\<lambda>n. replicate (Suc n) CHR ''a''),
      Iron_seal = (\<lambda>c ob pw. Inr ''sealed''),
      Iron_unseal = (\<lambda>c s pw. if s = ''sealed'' then Inr session0 else Inl (Error ''Bad hmac value''))\<rparr>"

definition world1 :: world where
  "world1 = world0\<lparr>nanoid_calls := 1, heap := [session0]\<rparr>"

text \<open>
  A cookie as a request carries it, and the cookie that \<^verbatim>\<open>Session.save\<close> writes for
  \<open>session0\<close> in \<open>world1\<close>.
\<close>

definition cookie0 :: cookie where
  "cookie0 = \<lparr>cookie_value = ''sealed'', maxAge = None, httpOnly = None, sameSite = None,
              path = None\<rparr>"

definition cookie1 :: cookie where
  "cookie1 = \<lparr>cookie_value = ''sealed'', maxAge = Some (Num 60000), httpOnly = Some True,
              sameSite = Some ''lax'', path = Some ''/''\<rparr>"

text \<open>A request without cookies, a request that carries the session cookie, a fresh response.\<close>

definition req0 :: NextRequest where
  "req0 = \<lparr>req_cookies = Map.empty\<rparr>"

definition req1 :: NextRequest where
  "req1 = \<lparr>req_cookies = [''session'' \<mapsto> cookie0]\<rparr>"

definition res0 :: NextResponse where
  "res0 = \<lparr>res_cookies = Map.empty\<rparr>"

text \<open>Three validators: \<^verbatim>\<open>() => true\<close>, \<^verbatim>\<open>() => false\<close>, and one that throws.\<close>

definition accepting :: validator where
  "accepting rt session = Inr True"

definition rejecting :: validator where
  "rejecting rt session = Inr False"

definition throwing :: validator where
  "throwing rt session = Inl (Error ''validator failed'')"

text \<open>
  The toucher \<^verbatim>\<open>(s) => ({ ...s, lastActive: Date.now() })\<close>: it leaves its argument
  alone and returns a changed copy.
\<close>

definition replacing_toucher :: hook where
  "replacing_toucher rt session h =
     Inr (alloc h ((h ! session)(''lastActive'' \<mapsto> JNumber (Num (Date_now rt)))))"

text \<open>A plugin whose create hook overwrites the session's \<^verbatim>\<open>id\<close>.\<close>

definition renaming_plugin :: SessionPlugin where
  "renaming_plugin =
     \<lparr>create = Some (\<lambda>rt session h. Inr (session, set_prop h session ''id'' (JString ''fixed''))),
      validate = None, touch = None\<rparr>"

section \<open>Helper lemmas\<close>

lemmas example_defs = world0_def world1_def rt0_def session0_def cookie0_def cookie1_def
  secret0_def req0_def req1_def res0_def sessionName_def

lemma length_set_prop [simp]: "length (set_prop h a k v) = length h"
  by (simp add: set_prop_def)

lemma nth_set_prop_same: "a < length h \<Longrightarrow> set_prop h a k v ! a = (h ! a)(k \<mapsto> v)"
  by (simp add: set_prop_def)

subsection \<open>The registries\<close>

lemma map_delete_absent: "k \<notin> fst ` set m \<Longrightarrow> map_delete k m = m"
  by (induction m) (auto simp: map_delete_def)

lemma map_delete_map_set: "k \<notin> fst ` set m \<Longrightarrow> map_delete k (map_set k v m) = m"
  by (induction m) (auto simp: map_delete_def)

lemma map_delete_removes: "k \<notin> fst ` set (map_delete k m)"
  by (auto simp: map_delete_def)

lemma map_set_member: "(k, v) \<in> set (map_set k v m)"
  by (induction m) auto

subsection \<open>The validator loop\<close>

lemma run_validators_all_true:
  "\<forall>v\<in>set vs. v rt ob = Inr True \<Longrightarrow> run_validators vs rt ob = Inr True"
  by (induction vs) auto

lemma run_validators_first_false:
  "\<forall>u\<in>set pre. u rt ob = Inr True \<Longrightarrow> v rt ob = Inr False \<Longrightarrow>
   run_validators (pre @ v # post) rt ob = Inr False"
  by (induction pre) auto

lemma run_validators_first_throw:
  "\<forall>u\<in>set pre. u rt ob = Inr True \<Longrightarrow> v rt ob = Inl e \<Longrightarrow>
   run_validators (pre @ v # post) rt ob = Inl e"
  by (induction pre) auto

subsection \<open>The paths through \<^verbatim>\<open>Session.get\<close>\<close>

lemma Session_get_unset: "\<not> secret_set w \<Longrightarrow> Session_get w cs = Inl secret_error"
  by (auto simp: Session_get_def secret_set_def split: option.splits)

lemma Session_get_returns:
  assumes "secret_set w"
  shows "\<exists>r w'. Session_get w cs = Inr (r, w') \<and>
           (r = Err NoCookie \<or> r = Err InvalidCookie \<or> r = Err ValidationFailed \<or>
            (\<exists>s. r = Ok s))"
  using assms
  by (auto simp: Session_get_def secret_set_def alloc_def Let_def split: option.splits sum.splits)

lemma Session_get_NoCookie:
  "secret_set w \<Longrightarrow> store_get cs sessionName = None \<Longrightarrow>
   Session_get w cs = Inr (Err NoCookie, w)"
  by (auto simp: Session_get_def secret_set_def split: option.splits)

lemma Session_get_unseal_fails:
  "secret_set w \<Longrightarrow> sessionSecret w = Some pw \<Longrightarrow> store_get cs sessionName = Some c \<Longrightarrow>
   Iron_unseal w (crypto w) (cookie_value c) pw = Inl e \<Longrightarrow>
   Session_get w cs = Inr (Err InvalidCookie, w)"
  by (auto simp: Session_get_def secret_set_def split: option.splits)

lemma Session_get_unsealed:
  assumes "secret_set w" "sessionSecret w = Some pw" "store_get cs sessionName = Some c"
    and "Iron_unseal w (crypto w) (cookie_value c) pw = Inr payload"
  shows "Session_get w cs =
     (case run_validators (map_values (validators w)) (runtime w) payload of
        Inl e \<Rightarrow> Inr (Err InvalidCookie, w\<lparr>heap := heap w @ [payload]\<rparr>)
      | Inr ok \<Rightarrow> if ok then Inr (Ok (length (heap w)), w\<lparr>heap := heap w @ [payload]\<rparr>)
                  else Inr (Err ValidationFailed, w\<lparr>heap := heap w @ [payload]\<rparr>))"
  using assms
  by (auto simp: Session_get_def secret_set_def alloc_def Session_validate_def split: sum.splits)

subsection \<open>\<^verbatim>\<open>Session.create\<close> and the create hooks\<close>

lemma run_create_validate_irrelevant:
  "run_create (map (\<lambda>p. p\<lparr>validate := None\<rparr>) ps) rt s h = run_create ps rt s h"
  by (induction ps arbitrary: s h) (auto split: option.splits sum.splits)

lemma Session_create_validate_irrelevant:
  "Session_create w d (map (\<lambda>p. p\<lparr>validate := None\<rparr>) ps) = Session_create w d ps"
  by (simp add: Session_create_def run_create_validate_irrelevant)

lemma Session_create_fields:
  assumes "Session_create w d ps = Inr (s, w1)"
  shows "sessionSecret w1 = sessionSecret w" and "crypto w1 = crypto w"
    and "validators w1 = validators w" and "touchListeners w1 = touchListeners w"
    and "runtime w1 = runtime w" and "Iron_seal w1 = Iron_seal w"
    and "Iron_unseal w1 = Iron_unseal w"
proof -
  from assms obtain h' where "w1 = w\<lparr>nanoid_calls := Suc (nanoid_calls w), heap := h'\<rparr>"
    by (auto simp: Session_create_def Session_id_def nanoid_def alloc_def split: sum.splits)
  then show "sessionSecret w1 = sessionSecret w" and "crypto w1 = crypto w"
    and "validators w1 = validators w" and "touchListeners w1 = touchListeners w"
    and "runtime w1 = runtime w" and "Iron_seal w1 = Iron_seal w"
    and "Iron_unseal w1 = Iron_unseal w"
    by simp_all
qed

lemma Session_create_expires:
  "Session_create w d [expires seconds] =
     Inr (length (heap w),
          w\<lparr>nanoid_calls := Suc (nanoid_calls w),
            heap := heap w @ [([''id'' \<mapsto> JString (nanoid_seq w (nanoid_calls w))] ++ d)
                       (''expires'' \<mapsto> JNumber (Num (Date_now (runtime w) + seconds * 1000)))]\<rparr>)"
  by (simp add: Session_create_def Session_id_def nanoid_def alloc_def expires_def
      expires_create_def set_prop_def)

lemma run_create_keeps_id:
  "\<forall>ext\<in>set ps. \<forall>f. create ext = Some f \<longrightarrow> keeps_id f \<Longrightarrow> s < length h \<Longrightarrow>
   \<exists>s' h'. run_create ps rt s h = Inr (s', h') \<and> s' < length h' \<and>
     get_prop (h' ! s') ''id'' = get_prop (h ! s) ''id''"
proof (induction ps arbitrary: s h)
  case Nil
  then show ?case by simp
next
  case (Cons p ps)
  show ?case
  proof (cases "create p")
    case None
    with Cons show ?thesis by simp
  next
    case (Some f)
    with Cons.prems have "keeps_id f" by simp
    with \<open>s < length h\<close> obtain s1 h1 where
      f: "f rt s h = Inr (s1, h1)" and live: "s1 < length h1"
      and same: "get_prop (h1 ! s1) ''id'' = get_prop (h ! s) ''id''"
      unfolding keeps_id_def by blast
    from Cons.prems have "\<forall>ext\<in>set ps. \<forall>f. create ext = Some f \<longrightarrow> keeps_id f" by simp
    from Cons.IH [OF this live] obtain s' h' where
      "run_create ps rt s1 h1 = Inr (s', h')" "s' < length h'"
      "get_prop (h' ! s') ''id'' = get_prop (h1 ! s1) ''id''"
      by blast
    with Some f same show ?thesis by simp
  qed
qed

lemma created_id_is_generated:
  assumes "d ''id'' = None"
    and "\<forall>ext\<in>set ps. \<forall>f. create ext = Some f \<longrightarrow> keeps_id f"
  shows "\<exists>s w1. Session_create w d ps = Inr (s, w1) \<and> s < length (heap w1) \<and>
           get_prop (heap w1 ! s) ''id'' = JString (nanoid_seq w (nanoid_calls w)) \<and>
           nanoid_calls w1 = Suc (nanoid_calls w) \<and> nanoid_seq w1 = nanoid_seq w"
proof -
  let ?ob = "[''id'' \<mapsto> JString (nanoid_seq w (nanoid_calls w))] ++ d"
  let ?h = "heap w @ [?ob]"
  have "length (heap w) < length ?h" by simp
  from run_create_keeps_id [OF assms(2) this, of "runtime w"] obtain s' h' where
    run: "run_create ps (runtime w) (length (heap w)) ?h = Inr (s', h')"
    and live: "s' < length h'"
    and same: "get_prop (h' ! s') ''id'' = get_prop (?h ! length (heap w)) ''id''"
    by blast
  have "get_prop (?h ! length (heap w)) ''id'' = JString (nanoid_seq w (nanoid_calls w))"
    using assms(1) by (simp add: get_prop_def map_add_def)
  with run live same show ?thesis
    by (simp add: Session_create_def Session_id_def nanoid_def alloc_def)
qed

lemma expires_create_keeps_id: "keeps_id (expires_create seconds)"
  by (simp add: keeps_id_def expires_create_def nth_set_prop_same get_prop_def)

lemma idle_create_keeps_id: "keeps_id idle_create"
  by (simp add: keeps_id_def idle_create_def nth_set_prop_same get_prop_def)

lemma inj_nanoid_seq_world0: "inj (nanoid_seq world0)"
proof (rule injI)
  fix m n assume "nanoid_seq world0 m = nanoid_seq world0 n"
  then have "length (replicate (Suc m) CHR ''a'') = length (replicate (Suc n) CHR ''a'')"
    by (simp add: world0_def)
  then show "m = n" by simp
qed

subsection \<open>\<^verbatim>\<open>Session.touch\<close>\<close>

lemma Session_touch_same_ref: "Session_touch w s = Inr (s', w') \<Longrightarrow> s' = s"
  by (auto simp: Session_touch_def split: sum.splits)

section \<open>The claims\<close>

subsection \<open>C1: the outcomes of \<^verbatim>\<open>Session.get\<close>\<close>

text \<open>
  Claim C1. On every cookie store, \<^verbatim>\<open>Session.get\<close> throws if and only if the session
  secret is not set; when the secret is set it returns, and what it returns is one of
  \<open>NoCookie\<close>, \<open>InvalidCookie\<close>, \<open>ValidationFailed\<close> or a session. It returns
  \<open>NoCookie\<close> when the cookie is absent, \<open>InvalidCookie\<close> when unsealing fails,
  \<open>ValidationFailed\<close> when validation answers false, and the unsealed session when
  validation answers true.
\<close>

theorem Session_get_outcome:
  "((\<exists>e. Session_get w cs = Inl e) \<longleftrightarrow> \<not> secret_set w) \<and>
   (secret_set w \<longrightarrow>
      (\<exists>r w'. Session_get w cs = Inr (r, w') \<and>
         (r = Err NoCookie \<or> r = Err InvalidCookie \<or> r = Err ValidationFailed \<or>
          (\<exists>s. r = Ok s)))) \<and>
   (secret_set w \<and> store_get cs sessionName = None \<longrightarrow>
      Session_get w cs = Inr (Err NoCookie, w)) \<and>
   (secret_set w \<and> sessionSecret w = Some pw \<and> store_get cs sessionName = Some c \<and>
    Iron_unseal w (crypto w) (cookie_value c) pw = Inl e \<longrightarrow>
      Session_get w cs = Inr (Err InvalidCookie, w)) \<and>
   (secret_set w \<and> sessionSecret w = Some pw \<and> store_get cs sessionName = Some c \<and>
    Iron_unseal w (crypto w) (cookie_value c) pw = Inr payload \<and>
    run_validators (map_values (validators w)) (runtime w) payload = Inr False \<longrightarrow>
      Session_get w cs = Inr (Err ValidationFailed, w\<lparr>heap := heap w @ [payload]\<rparr>)) \<and>
   (secret_set w \<and> sessionSecret w = Some pw \<and> store_get cs sessionName = Some c \<and>
    Iron_unseal w (crypto w) (cookie_value c) pw = Inr payload \<and>
    run_validators (map_values (validators w)) (runtime w) payload = Inr True \<longrightarrow>
      Session_get w cs = Inr (Ok (length (heap w)), w\<lparr>heap := heap w @ [payload]\<rparr>))"
proof -
  have "\<not> secret_set w \<Longrightarrow> \<exists>e. Session_get w cs = Inl e"
    by (simp add: Session_get_unset)
  moreover have "secret_set w \<Longrightarrow> \<not> (\<exists>e. Session_get w cs = Inl e)"
    using Session_get_returns [of w cs] by auto
  ultimately have throws: "(\<exists>e. Session_get w cs = Inl e) \<longleftrightarrow> \<not> secret_set w"
    by blast
  have returns: "secret_set w \<longrightarrow>
      (\<exists>r w'. Session_get w cs = Inr (r, w') \<and>
         (r = Err NoCookie \<or> r = Err InvalidCookie \<or> r = Err ValidationFailed \<or>
          (\<exists>s. r = Ok s)))"
    using Session_get_returns [of w cs] by blast
  have absent: "secret_set w \<and> store_get cs sessionName = None \<longrightarrow>
      Session_get w cs = Inr (Err NoCookie, w)"
    by (simp add: Session_get_NoCookie)
  have unseal: "secret_set w \<and> sessionSecret w = Some pw \<and> store_get cs sessionName = Some c \<and>
    Iron_unseal w (crypto w) (cookie_value c) pw = Inl e \<longrightarrow>
      Session_get w cs = Inr (Err InvalidCookie, w)"
    by (simp add: Session_get_unseal_fails)
  have rejected: "secret_set w \<and> sessionSecret w = Some pw \<and> store_get cs sessionName = Some c \<and>
    Iron_unseal w (crypto w) (cookie_value c) pw = Inr payload \<and>
    run_validators (map_values (validators w)) (runtime w) payload = Inr False \<longrightarrow>
      Session_get w cs = Inr (Err ValidationFailed, w\<lparr>heap := heap w @ [payload]\<rparr>)"
    by (simp add: Session_get_unsealed)
  have accepted: "secret_set w \<and> sessionSecret w = Some pw \<and> store_get cs sessionName = Some c \<and>
    Iron_unseal w (crypto w) (cookie_value c) pw = Inr payload \<and>
    run_validators (map_values (validators w)) (runtime w) payload = Inr True \<longrightarrow>
      Session_get w cs = Inr (Ok (length (heap w)), w\<lparr>heap := heap w @ [payload]\<rparr>)"
    by (simp add: Session_get_unsealed)
  from throws returns absent unseal rejected accepted show ?thesis
    by (intro conjI)
qed

theorem Session_get_outcome_witness:
  "secret_set world1 \<and>
   Session_get world1 (ResponseCookies [''session'' \<mapsto> cookie0]) =
     Inr (Ok 1, world1\<lparr>heap := [session0, session0]\<rparr>) \<and>
   Session_get world1 (ResponseCookies Map.empty) = Inr (Err NoCookie, world1) \<and>
   Session_get world1 (ResponseCookies [''session'' \<mapsto> cookie0\<lparr>cookie_value := ''sealeX''\<rparr>]) =
     Inr (Err InvalidCookie, world1) \<and>
   Session_get (world1\<lparr>validators := [(''k'', rejecting)]\<rparr>)
       (ResponseCookies [''session'' \<mapsto> cookie0]) =
     Inr (Err ValidationFailed,
          world1\<lparr>validators := [(''k'', rejecting)], heap := [session0, session0]\<rparr>) \<and>
   \<not> secret_set (world1\<lparr>sessionSecret := Some []\<rparr>) \<and>
   (\<exists>e. Session_get (world1\<lparr>sessionSecret := Some []\<rparr>)
          (ResponseCookies [''session'' \<mapsto> cookie0]) = Inl e)"
proof -
  let ?cs = "ResponseCookies [''session'' \<mapsto> cookie0]"
  let ?bad = "cookie0\<lparr>cookie_value := ''sealeX''\<rparr>"
  let ?wr = "world1\<lparr>validators := [(''k'', rejecting)]\<rparr>"
  have a: "secret_set world1"
    by (simp add: secret_set_def example_defs)
  have pw: "sessionSecret world1 = Some secret0"
    by (simp add: example_defs)
  have b: "\<not> secret_set (world1\<lparr>sessionSecret := Some []\<rparr>)"
    by (simp add: secret_set_def)
  have ok: "Session_get world1 ?cs = Inr (Ok 1, world1\<lparr>heap := [session0, session0]\<rparr>)"
    using a pw Session_get_outcome [of world1 ?cs secret0 cookie0 "Error []" session0]
    by (simp add: sessionName_def world1_def world0_def cookie0_def map_values_def)
  have nocookie: "Session_get world1 (ResponseCookies Map.empty) = Inr (Err NoCookie, world1)"
    using a Session_get_outcome [of world1 "ResponseCookies Map.empty"] by simp
  have invalid: "Session_get world1 (ResponseCookies [''session'' \<mapsto> ?bad]) =
      Inr (Err InvalidCookie, world1)"
    using a pw Session_get_outcome [of world1 "ResponseCookies [''session'' \<mapsto> ?bad]" secret0
        ?bad "Error ''Bad hmac value''"]
    by (simp add: sessionName_def world1_def world0_def)
  have failed: "Session_get ?wr ?cs =
      Inr (Err ValidationFailed, ?wr\<lparr>heap := [session0, session0]\<rparr>)"
    using Session_get_outcome [of ?wr ?cs secret0 cookie0 "Error []" session0]
    by (simp add: secret_set_def example_defs map_values_def rejecting_def)
  have thrown: "\<exists>e. Session_get (world1\<lparr>sessionSecret := Some []\<rparr>) ?cs = Inl e"
    using b Session_get_outcome [of "world1\<lparr>sessionSecret := Some []\<rparr>" ?cs] by blast
  from a ok nocookie invalid failed b thrown show ?thesis
    by simp
qed

subsection \<open>C2: \<^verbatim>\<open>save\<close> then \<^verbatim>\<open>get\<close>\<close>

text \<open>
  Claim C2, amended. A session created with the \<^verbatim>\<open>expires\<close> plugin (among the
  plugins given) and saved to a cookie jar that reads what it writes is returned by the
  \<^verbatim>\<open>Session.get\<close> that follows on the same jar: the call succeeds, and the session it
  returns is a new object with the fields of the saved one, \<^verbatim>\<open>id\<close> and \<^verbatim>\<open>expires\<close>
  among them. This assumes that the secret is set, that unsealing the token opens to what
  was sealed, and that every registered validator answers true.
\<close>

theorem save_get_roundtrip:
  assumes "sessionSecret w = Some pw" and "pw \<noteq> []"
    and "Session_create w d ps = Inr (s, w1)" and "expires seconds \<in> set ps"
    and "Iron_seal w1 (crypto w1) (heap w1 ! s) pw = Inr sealed"
    and "Iron_unseal w1 (crypto w1) sealed pw = Inr (heap w1 ! s)"
    and "\<forall>v\<in>set (map_values (validators w1)). v (runtime w1) (heap w1 ! s) = Inr True"
  shows "\<exists>cs' s' w2. Session_save w1 s (ResponseCookies j) = Inr cs' \<and>
           Session_get w1 cs' = Inr (Ok s', w2) \<and>
           heap w2 ! s' = heap w1 ! s \<and>
           get_prop (heap w2 ! s') ''id'' = get_prop (heap w1 ! s) ''id'' \<and>
           get_prop (heap w2 ! s') ''expires'' = get_prop (heap w1 ! s) ''expires''"
proof -
  have secret: "sessionSecret w1 = Some pw" "secret_set w1"
    using assms(1,2) Session_create_fields(1) [OF assms(3)] by (simp_all add: secret_set_def)
  let ?c = "\<lparr>cookie_value = sealed,
             maxAge = Some (js_minus (runtime w1) (get_prop (heap w1 ! s) ''expires'')
                             (Num (Date_now (runtime w1)))),
             httpOnly = Some True, sameSite = Some ''lax'', path = Some ''/''\<rparr>"
  let ?cs = "ResponseCookies (j(sessionName \<mapsto> ?c))"
  have save: "Session_save w1 s (ResponseCookies j) = Inr ?cs"
    using secret(1) assms(2,5) by (simp add: Session_save_def)
  have "store_get ?cs sessionName = Some ?c" by simp
  moreover have "Iron_unseal w1 (crypto w1) (cookie_value ?c) pw = Inr (heap w1 ! s)"
    using assms(6) by simp
  ultimately have "Session_get w1 ?cs =
      Inr (Ok (length (heap w1)), w1\<lparr>heap := heap w1 @ [heap w1 ! s]\<rparr>)"
    using secret assms(7)
    by (simp add: Session_get_unsealed [where c = ?c and pw = pw] run_validators_all_true)
  with save show ?thesis
    by simp
qed

theorem save_get_roundtrip_witness:
  "\<exists>cs' s' w2. Session_save world1 0 (ResponseCookies Map.empty) = Inr cs' \<and>
      Session_get world1 cs' = Inr (Ok s', w2) \<and>
      heap w2 ! s' = session0 \<and>
      get_prop (heap w2 ! s') ''id'' = JString ''a'' \<and>
      get_prop (heap w2 ! s') ''expires'' = JNumber (Num 61000)"
proof -
  have c: "Session_create world0 Map.empty [expires 60] = Inr (0, world1)"
    by (simp add: Session_create_expires example_defs)
  have "\<exists>cs' s' w2. Session_save world1 0 (ResponseCookies Map.empty) = Inr cs' \<and>
      Session_get world1 cs' = Inr (Ok s', w2) \<and>
      heap w2 ! s' = heap world1 ! 0 \<and>
      get_prop (heap w2 ! s') ''id'' = get_prop (heap world1 ! 0) ''id'' \<and>
      get_prop (heap w2 ! s') ''expires'' = get_prop (heap world1 ! 0) ''expires''"
  proof (rule save_get_roundtrip [where w = world0 and pw = secret0 and d = Map.empty
        and sealed = "''sealed''" and ps = "[expires 60]" and seconds = 60])
    show "sessionSecret world0 = Some secret0" by (simp add: world0_def)
    show "secret0 \<noteq> []" by (simp add: secret0_def)
    show "Session_create world0 Map.empty [expires 60] = Inr (0, world1)" by (rule c)
    show "expires 60 \<in> set [expires 60]" by simp
    show "Iron_seal world1 (crypto world1) (heap world1 ! 0) secret0 = Inr ''sealed''"
      by (simp add: world1_def world0_def)
    show "Iron_unseal world1 (crypto world1) ''sealed'' secret0 = Inr (heap world1 ! 0)"
      by (simp add: world1_def world0_def)
    show "\<forall>v\<in>set (map_values (validators world1)).
            v (runtime world1) (heap world1 ! 0) = Inr True"
      by (simp add: world1_def world0_def map_values_def)
  qed
  then show ?thesis by (simp add: world1_def get_prop_def session0_def)
qed

text \<open>
  The claim as it stands fails on the store that \<^verbatim>\<open>mergeCookies\<close> builds: there
  \<^verbatim>\<open>save\<close> writes the response's cookies and \<^verbatim>\<open>get\<close> reads the request's, so the
  \<^verbatim>\<open>get\<close> that follows the \<^verbatim>\<open>save\<close> finds no cookie although the box round-trips and
  no validator is registered.
\<close>

theorem save_get_roundtrip_counterexample:
  "Session_create world0 Map.empty [expires 60] = Inr (0, world1) \<and>
   heap world1 ! 0 = session0 \<and>
   sessionSecret world1 = Some secret0 \<and>
   Iron_seal world1 (crypto world1) session0 secret0 = Inr ''sealed'' \<and>
   Iron_unseal world1 (crypto world1) ''sealed'' secret0 = Inr session0 \<and>
   validators world1 = [] \<and>
   expires_validate (runtime world1) session0 = Inr True \<and>
   Session_save world1 0 (mergeCookies req0 res0) =
     Inr (Merged Map.empty [''session'' \<mapsto> cookie1]) \<and>
   Session_get world1 (Merged Map.empty [''session'' \<mapsto> cookie1]) =
     Inr (Err NoCookie, world1)"
  by (simp add: Session_create_expires Session_save_def Session_get_def mergeCookies_def
      expires_validate_def js_gt_def js_minus_def ToNumber_def get_prop_def example_defs)

subsection \<open>C3: the identifier of a created session\<close>

text \<open>
  Claim C3, amended. For session data without an \<^verbatim>\<open>id\<close> property and plugins whose
  create hooks keep the identifier, \<^verbatim>\<open>Session.create\<close> returns a session whose \<^verbatim>\<open>id\<close>
  is the identifier \<^verbatim>\<open>nanoid()\<close> generated in that call; with a generator whose
  identifiers are non-empty and never repeat, the \<^verbatim>\<open>id\<close> is non-empty and two
  successive calls with the same data give different ones.
\<close>

theorem Session_create_id:
  assumes "d ''id'' = None"
    and "\<forall>ext\<in>set ps. \<forall>f. create ext = Some f \<longrightarrow> keeps_id f"
    and "inj (nanoid_seq w)"
    and "\<forall>n. nanoid_seq w n \<noteq> []"
  shows "\<exists>s1 w1 s2 w2 i1 i2.
           Session_create w d ps = Inr (s1, w1) \<and> Session_create w1 d ps = Inr (s2, w2) \<and>
           get_prop (heap w1 ! s1) ''id'' = JString i1 \<and>
           get_prop (heap w2 ! s2) ''id'' = JString i2 \<and>
           i1 = nanoid_seq w (nanoid_calls w) \<and> i1 \<noteq> [] \<and> i2 \<noteq> [] \<and> i1 \<noteq> i2"
proof -
  from created_id_is_generated [where d = d and ps = ps and w = w, OF assms(1,2)]
  obtain s1 w1 where
    c1: "Session_create w d ps = Inr (s1, w1)"
    and i1: "get_prop (heap w1 ! s1) ''id'' = JString (nanoid_seq w (nanoid_calls w))"
    and n1: "nanoid_calls w1 = Suc (nanoid_calls w)" and q1: "nanoid_seq w1 = nanoid_seq w"
    by blast
  from created_id_is_generated [where d = d and ps = ps and w = w1, OF assms(1,2)]
  obtain s2 w2 where
    c2: "Session_create w1 d ps = Inr (s2, w2)"
    and i2: "get_prop (heap w2 ! s2) ''id'' = JString (nanoid_seq w1 (nanoid_calls w1))"
    by blast
  have "nanoid_seq w (nanoid_calls w) \<noteq> nanoid_seq w (Suc (nanoid_calls w))"
    using assms(3) by (auto dest: injD)
  with c1 c2 i1 i2 n1 q1 assms(4) show ?thesis
    by auto
qed

theorem Session_create_id_witness:
  "\<exists>s1 w1 s2 w2 i1 i2.
     Session_create world0 [''user'' \<mapsto> JString ''u''] [expires 60, idle 60] = Inr (s1, w1) \<and>
     Session_create w1 [''user'' \<mapsto> JString ''u''] [expires 60, idle 60] = Inr (s2, w2) \<and>
     get_prop (heap w1 ! s1) ''id'' = JString i1 \<and>
     get_prop (heap w2 ! s2) ''id'' = JString i2 \<and>
     i1 = ''a'' \<and> i1 \<noteq> [] \<and> i2 \<noteq> [] \<and> i1 \<noteq> i2"
proof -
  have a: "[''user'' \<mapsto> JString ''u''] ''id'' = None" by simp
  have b: "\<forall>ext\<in>set [expires 60, idle 60]. \<forall>f. create ext = Some f \<longrightarrow> keeps_id f"
    by (simp add: expires_def idle_def expires_create_keeps_id idle_create_keeps_id)
  have c: "\<forall>n. nanoid_seq world0 n \<noteq> []" by (simp add: world0_def)
  have d: "nanoid_seq world0 (nanoid_calls world0) = ''a''" by (simp add: world0_def)
  show ?thesis
    using Session_create_id [where w = world0 and d = "[''user'' \<mapsto> JString ''u'']"
        and ps = "[expires 60, idle 60]", OF a b inj_nanoid_seq_world0 c]
    unfolding d by simp
qed

text \<open>
  The claim as it stands fails: the object literal copies the data over the generated
  identifier, so data with an \<^verbatim>\<open>id\<close> of its own keeps it, here the empty string, on
  every call, while the identifier generated is \<open>''a''\<close>; and a create hook may write any
  \<^verbatim>\<open>id\<close> it likes.
\<close>

theorem Session_create_id_counterexample:
  "nanoid_seq world0 (nanoid_calls world0) = ''a'' \<and>
   Session_create world0 [''id'' \<mapsto> JString ''''] [] =
     Inr (0, world0\<lparr>nanoid_calls := 1, heap := [[''id'' \<mapsto> JString '''']]\<rparr>) \<and>
   Session_create (world0\<lparr>nanoid_calls := 1, heap := [[''id'' \<mapsto> JString '''']]\<rparr>)
       [''id'' \<mapsto> JString ''''] [] =
     Inr (1, world0\<lparr>nanoid_calls := 2,
                    heap := [[''id'' \<mapsto> JString ''''], [''id'' \<mapsto> JString '''']]\<rparr>) \<and>
   get_prop [''id'' \<mapsto> JString ''''] ''id'' = JString '''' \<and>
   Session_create world0 Map.empty [renaming_plugin] =
     Inr (0, world0\<lparr>nanoid_calls := 1, heap := [[''id'' \<mapsto> JString ''fixed'']]\<rparr>)"
  by (simp add: Session_create_def Session_id_def nanoid_def alloc_def world0_def get_prop_def
      renaming_plugin_def set_prop_def)

subsection \<open>C4: what \<^verbatim>\<open>Session.touch\<close> returns\<close>

text \<open>
  Claim C4 says that \<^verbatim>\<open>Session.touch\<close> returns the session as the touchers leave it,
  a replacement returned by a toucher included. The code calls each toucher and drops what
  it returns: with the toucher \<^verbatim>\<open>(s) => ({ ...s, lastActive: Date.now() })\<close> registered,
  \<^verbatim>\<open>touch\<close> on \<open>session0\<close> returns \<open>session0\<close> itself (address 0), which has no
  \<^verbatim>\<open>lastActive\<close>; the replacement built by the toucher (address 1) is lost.
\<close>

theorem Session_touch_drops_replacement:
  "Session_touch (world1\<lparr>touchListeners := [(''k'', replacing_toucher)]\<rparr>) 0 =
     Inr (0, world1\<lparr>touchListeners := [(''k'', replacing_toucher)],
                    heap := [session0, session0(''lastActive'' \<mapsto> JNumber (Num 1000))]\<rparr>) \<and>
   replacing_toucher rt0 0 [session0] =
     Inr (1, [session0, session0(''lastActive'' \<mapsto> JNumber (Num 1000))]) \<and>
   get_prop session0 ''lastActive'' = JUndefined"
  by (simp add: Session_touch_def map_values_def world1_def world0_def replacing_toucher_def
      alloc_def rt0_def get_prop_def session0_def)

subsection \<open>C5: \<^verbatim>\<open>Session.validate\<close>\<close>

text \<open>
  Claim C5. \<^verbatim>\<open>Session.validate\<close> answers true when the registry of validators is empty
  and when every registered validator answers true; it answers false at the first
  registered validator that answers false, whatever the validators after it would do
  (they are not called, so one that would throw does not). The \<^verbatim>\<open>validate\<close> hooks of
  the plugins a session was created with play no part: the session, and so the verdict on
  it, is the same when the plugins are stripped of them.
\<close>

theorem Session_validate_registry:
  "(validators w = [] \<longrightarrow> Session_validate w s = Inr True) \<and>
   ((\<forall>v\<in>set (map_values (validators w)). v (runtime w) (heap w ! s) = Inr True) \<longrightarrow>
      Session_validate w s = Inr True) \<and>
   (map_values (validators w) = pre @ v # post \<and>
    (\<forall>u\<in>set pre. u (runtime w) (heap w ! s) = Inr True) \<and>
    v (runtime w) (heap w ! s) = Inr False \<longrightarrow>
      Session_validate w s = Inr False) \<and>
   Session_create w d (map (\<lambda>p. p\<lparr>validate := None\<rparr>) ps) = Session_create w d ps"
  by (simp add: Session_validate_def map_values_def run_validators_all_true
      run_validators_first_false Session_create_validate_irrelevant)

text \<open>
  In the instance below the third validator would throw and is never reached; and a
  session whose \<^verbatim>\<open>expires\<close> plugin would reject it (the clock is past its expiry) is
  valid as long as no validator is registered.
\<close>

theorem Session_validate_registry_witness:
  "Session_validate
     (world1\<lparr>validators := [(''k1'', accepting), (''k2'', rejecting), (''k3'', throwing)]\<rparr>) 0
     = Inr False \<and>
   Session_validate (world1\<lparr>validators := [(''k1'', accepting)]\<rparr>) 0 = Inr True \<and>
   Session_validate (world1\<lparr>runtime := rt0\<lparr>Date_now := 99000\<rparr>\<rparr>) 0 = Inr True \<and>
   expires_validate (rt0\<lparr>Date_now := 99000\<rparr>) session0 = Inr False"
proof -
  let ?w = "world1\<lparr>validators := [(''k1'', accepting), (''k2'', rejecting), (''k3'', throwing)]\<rparr>"
  let ?u = "world1\<lparr>validators := [(''k1'', accepting)]\<rparr>"
  let ?l = "world1\<lparr>runtime := rt0\<lparr>Date_now := 99000\<rparr>\<rparr>"
  have "Session_validate ?w 0 = Inr False"
    using Session_validate_registry [of ?w 0 "[accepting]" rejecting "[throwing]"]
    by (simp add: map_values_def accepting_def rejecting_def)
  moreover have "Session_validate ?u 0 = Inr True"
    using Session_validate_registry [of ?u 0]
    by (simp add: map_values_def accepting_def)
  moreover have "Session_validate ?l 0 = Inr True"
    using Session_validate_registry [of ?l 0]
    by (simp add: world1_def world0_def)
  moreover have "expires_validate (rt0\<lparr>Date_now := 99000\<rparr>) session0 = Inr False"
    by (simp add: expires_validate_def js_gt_def ToNumber_def get_prop_def session0_def)
  ultimately show ?thesis by blast
qed

subsection \<open>C6: registering and removing a validator\<close>

text \<open>
  Claim C6. After \<^verbatim>\<open>onValidate(fn)\<close> the validator is registered; \<^verbatim>\<open>removeListener\<close>
  called with the string that \<^verbatim>\<open>onValidate\<close> returned removes it; and when the
  identifier generated for the registration was not already a key of the registry, both
  registries are as they were before the registration (only the count of generated
  identifiers has moved), so \<^verbatim>\<open>Session.validate\<close> answers as before. Called with a
  string that no registration has returned, \<^verbatim>\<open>removeListener\<close> changes nothing.
\<close>

theorem onValidate_removeListener:
  "(nanoid_seq w (nanoid_calls w) \<notin> fst ` set (validators w) \<longrightarrow>
      removeListener (snd (onValidate w fn)) (fst (onValidate w fn)) =
        w\<lparr>nanoid_calls := Suc (nanoid_calls w)\<rparr> \<and>
      Session_validate (removeListener (snd (onValidate w fn)) (fst (onValidate w fn))) s =
        Session_validate w s) \<and>
   (nanoid_seq w (nanoid_calls w), fn) \<in> set (validators (snd (onValidate w fn))) \<and>
   nanoid_seq w (nanoid_calls w) \<notin>
     fst ` set (validators (removeListener (snd (onValidate w fn)) (fst (onValidate w fn)))) \<and>
   ((\<forall>k\<in>fst ` set (validators w). ident \<noteq> ''v,'' @ k) \<and>
    (\<forall>k\<in>fst ` set (touchListeners w). ident \<noteq> ''t,'' @ k) \<longrightarrow>
      removeListener w ident = w)"
proof -
  let ?k = "nanoid_seq w (nanoid_calls w)"
  let ?w1 = "snd (onValidate w fn)"
  let ?rid = "fst (onValidate w fn)"
  have rid: "?rid = ''v,'' @ ?k"
    by (simp add: onValidate_def nanoid_def)
  have w1: "?w1 =
      w\<lparr>nanoid_calls := Suc (nanoid_calls w), validators := map_set ?k fn (validators w)\<rparr>"
    by (simp add: onValidate_def nanoid_def)
  have rm: "removeListener ?w1 ?rid =
      w\<lparr>nanoid_calls := Suc (nanoid_calls w),
        validators := map_delete ?k (map_set ?k fn (validators w))\<rparr>"
    by (simp add: rid w1 removeListener_def startsWith_def)
  have a: "?k \<notin> fst ` set (validators w) \<Longrightarrow>
      removeListener ?w1 ?rid = w\<lparr>nanoid_calls := Suc (nanoid_calls w)\<rparr>"
    by (simp add: rm map_delete_map_set)
  have b: "?k \<notin> fst ` set (validators w) \<Longrightarrow>
      Session_validate (removeListener ?w1 ?rid) s = Session_validate w s"
    by (simp add: a Session_validate_def)
  have c: "(?k, fn) \<in> set (validators ?w1)"
    by (simp add: w1 map_set_member)
  have d: "?k \<notin> fst ` set (validators (removeListener ?w1 ?rid))"
    using map_delete_removes [of ?k "map_set ?k fn (validators w)"] by (simp add: rm)
  have e: "removeListener w ident = w"
    if v: "\<forall>k\<in>fst ` set (validators w). ident \<noteq> ''v,'' @ k"
      and t: "\<forall>k\<in>fst ` set (touchListeners w). ident \<noteq> ''t,'' @ k"
  proof -
    have "map_delete (drop 2 ident) (validators w) = validators w"
      if "startsWith ident ''v,''"
    proof -
      from that have "ident = ''v,'' @ drop 2 ident"
        by (metis append_take_drop_id startsWith_def length_Cons list.size(3) numeral_2_eq_2)
      with v have "drop 2 ident \<notin> fst ` set (validators w)" by metis
      then show ?thesis by (rule map_delete_absent)
    qed
    moreover
    have "map_delete (drop 2 ident) (touchListeners w) = touchListeners w"
      if "startsWith ident ''t,''"
    proof -
      from that have "ident = ''t,'' @ drop 2 ident"
        by (metis append_take_drop_id startsWith_def length_Cons list.size(3) numeral_2_eq_2)
      with t have "drop 2 ident \<notin> fst ` set (touchListeners w)" by metis
      then show ?thesis by (rule map_delete_absent)
    qed
    ultimately show ?thesis
      by (simp add: removeListener_def)
  qed
  show ?thesis
    using a b c d e by blast
qed

theorem onValidate_removeListener_witness:
  "fst (onValidate (world1\<lparr>validators := [(''a'', accepting)]\<rparr>) rejecting) = ''v,aa'' \<and>
   validators (snd (onValidate (world1\<lparr>validators := [(''a'', accepting)]\<rparr>) rejecting)) =
     [(''a'', accepting), (''aa'', rejecting)] \<and>
   removeListener (snd (onValidate (world1\<lparr>validators := [(''a'', accepting)]\<rparr>) rejecting))
       (fst (onValidate (world1\<lparr>validators := [(''a'', accepting)]\<rparr>) rejecting)) =
     world1\<lparr>validators := [(''a'', accepting)], nanoid_calls := 2\<rparr> \<and>
   removeListener (world1\<lparr>validators := [(''a'', accepting)]\<rparr>) ''v,zz'' =
     world1\<lparr>validators := [(''a'', accepting)]\<rparr>"
proof -
  let ?w = "world1\<lparr>validators := [(''a'', accepting)]\<rparr>"
  have k: "nanoid_seq ?w (nanoid_calls ?w) = ''aa''"
    by (simp add: world1_def world0_def)
  have "fst (onValidate ?w rejecting) = ''v,aa''"
    by (simp add: onValidate_def nanoid_def world1_def world0_def)
  moreover
  have "validators (snd (onValidate ?w rejecting)) = [(''a'', accepting), (''aa'', rejecting)]"
    by (simp add: onValidate_def nanoid_def world1_def world0_def)
  moreover
  have "removeListener (snd (onValidate ?w rejecting)) (fst (onValidate ?w rejecting)) =
      ?w\<lparr>nanoid_calls := Suc (nanoid_calls ?w)\<rparr>"
    using onValidate_removeListener [of ?w rejecting 0 "''v,zz''"] k by simp
  moreover have "removeListener ?w ''v,zz'' = ?w"
    using onValidate_removeListener [of ?w rejecting 0 "''v,zz''"] by simp
  ultimately show ?thesis
    by (simp add: world1_def)
qed

subsection \<open>C7: the cookie written by \<^verbatim>\<open>Session.save\<close>\<close>

text \<open>
  Claim C7. \<^verbatim>\<open>Session.save\<close> throws when the secret is not set. When it is set and
  sealing the session yields a token, \<^verbatim>\<open>save\<close> sets the cookie named \<^verbatim>\<open>session\<close> to
  that token with exactly these options: \<^verbatim>\<open>maxAge\<close> is \<^verbatim>\<open>session.expires - Date.now()\<close>
  (the difference of the two numbers when \<^verbatim>\<open>expires\<close> is a number), \<^verbatim>\<open>httpOnly\<close> is
  true, \<^verbatim>\<open>sameSite\<close> is \<^verbatim>\<open>lax\<close> and \<^verbatim>\<open>path\<close> is \<^verbatim>\<open>/\<close>.
\<close>

theorem Session_save_cookie:
  "(\<not> secret_set w \<longrightarrow> Session_save w session cs = Inl secret_error) \<and>
   (secret_set w \<and> sessionSecret w = Some pw \<and>
    Iron_seal w (crypto w) (heap w ! session) pw = Inr sealed \<longrightarrow>
      Session_save w session cs =
        Inr (store_set cs sessionName
              \<lparr>cookie_value = sealed,
               maxAge = Some (js_minus (runtime w) (get_prop (heap w ! session) ''expires'')
                               (Num (Date_now (runtime w)))),
               httpOnly = Some True, sameSite = Some ''lax'', path = Some ''/''\<rparr>)) \<and>
   (get_prop (heap w ! session) ''expires'' = JNumber (Num t) \<longrightarrow>
      js_minus (runtime w) (get_prop (heap w ! session) ''expires'')
          (Num (Date_now (runtime w))) =
        Num (t - Date_now (runtime w)))"
  by (auto simp: Session_save_def secret_set_def js_minus_def ToNumber_def split: option.splits)

theorem Session_save_cookie_witness:
  "Session_save world1 0 (ResponseCookies Map.empty) =
     Inr (ResponseCookies [''session'' \<mapsto> cookie1]) \<and>
   Session_save world1 0 (mergeCookies req0 res0) =
     Inr (Merged Map.empty [''session'' \<mapsto> cookie1]) \<and>
   Session_save (world1\<lparr>sessionSecret := None\<rparr>) 0 (ResponseCookies Map.empty) =
     Inl secret_error"
proof -
  have set1: "secret_set world1 \<and> sessionSecret world1 = Some secret0 \<and>
      Iron_seal world1 (crypto world1) (heap world1 ! 0) secret0 = Inr ''sealed''"
    by (simp add: secret_set_def example_defs)
  have age: "js_minus (runtime world1) (get_prop (heap world1 ! 0) ''expires'')
      (Num (Date_now (runtime world1))) = Num 60000"
    using Session_save_cookie [of world1 0 "ResponseCookies Map.empty" secret0 "''sealed''" 61000]
    by (simp add: example_defs get_prop_def)
  have "Session_save world1 0 (ResponseCookies Map.empty) =
      Inr (ResponseCookies [''session'' \<mapsto> cookie1])"
    using Session_save_cookie [of world1 0 "ResponseCookies Map.empty" secret0 "''sealed''" 61000]
      set1 age
    by (simp add: cookie1_def sessionName_def)
  moreover
  have "Session_save world1 0 (mergeCookies req0 res0) =
      Inr (Merged Map.empty [''session'' \<mapsto> cookie1])"
    using Session_save_cookie [of world1 0 "mergeCookies req0 res0" secret0 "''sealed''" 61000]
      set1 age
    by (simp add: cookie1_def sessionName_def mergeCookies_def req0_def res0_def)
  moreover
  have "Session_save (world1\<lparr>sessionSecret := None\<rparr>) 0 (ResponseCookies Map.empty) =
      Inl secret_error"
    using Session_save_cookie [of "world1\<lparr>sessionSecret := None\<rparr>" 0
        "ResponseCookies Map.empty"]
    by (simp add: secret_set_def)
  ultimately show ?thesis by blast
qed

subsection \<open>C8: \<^verbatim>\<open>Session.destroy\<close>\<close>




subsection \<open>C9: the \<^verbatim>\<open>idle\<close> plugin's toucher\<close>

text \<open>
  Claim C9. Take a session created with the \<^verbatim>\<open>idle\<close> plugin (among the plugins
  given), an object of the heap, in a world where the plugin's \<^verbatim>\<open>touch\<close> hook is the
  registered toucher. Whatever the clock shows when \<^verbatim>\<open>Session.touch\<close> is called, the
  call returns the session, with \<^verbatim>\<open>lastActive\<close> set to the clock's time and every
  other property, \<^verbatim>\<open>id\<close> and \<^verbatim>\<open>expires\<close> among them, as it was.
\<close>

theorem idle_touch_lastActive:
  assumes "Session_create w d ps = Inr (s, w1)" and "idle seconds \<in> set ps"
    and "s < length (heap w1)"
    and "map_values (touchListeners w) = [idle_touch]"
  shows "\<exists>w3. Session_touch (w1\<lparr>runtime := (runtime w1)\<lparr>Date_now := t\<rparr>\<rparr>) s = Inr (s, w3) \<and>
           heap w3 ! s = (heap w1 ! s)(''lastActive'' \<mapsto> JNumber (Num t)) \<and>
           get_prop (heap w3 ! s) ''lastActive'' = JNumber (Num t) \<and>
           get_prop (heap w3 ! s) ''id'' = get_prop (heap w1 ! s) ''id'' \<and>
           get_prop (heap w3 ! s) ''expires'' = get_prop (heap w1 ! s) ''expires'' \<and>
           (\<forall>k. k \<noteq> ''lastActive'' \<longrightarrow> (heap w3 ! s) k = (heap w1 ! s) k)"
proof -
  have reg: "map_values (touchListeners w1) = [idle_touch]"
    using assms(4) Session_create_fields(4) [OF assms(1)] by simp
  let ?w2 = "w1\<lparr>runtime := (runtime w1)\<lparr>Date_now := t\<rparr>\<rparr>"
  let ?w3 = "?w2\<lparr>heap := set_prop (heap w1) s ''lastActive'' (JNumber (Num t))\<rparr>"
  have "Session_touch ?w2 s = Inr (s, ?w3)"
    using reg by (simp add: Session_touch_def idle_touch_def)
  moreover have "heap ?w3 ! s = (heap w1 ! s)(''lastActive'' \<mapsto> JNumber (Num t))"
    using assms(3) by (simp add: nth_set_prop_same)
  ultimately show ?thesis
    by (simp add: get_prop_def)
qed

theorem idle_touch_lastActive_witness:
  "\<exists>w3. Session_touch
          (world0\<lparr>touchListeners := [(''k'', idle_touch)], nanoid_calls := 1,
                  heap := [[''id'' \<mapsto> JString ''a'', ''user'' \<mapsto> JString ''u'',
                            ''expires'' \<mapsto> JNumber (Num 61000),
                            ''lastActive'' \<mapsto> JNumber (Num 1000)]],
                  runtime := rt0\<lparr>Date_now := 5000\<rparr>\<rparr>) 0 = Inr (0, w3) \<and>
        heap w3 ! 0 = [''id'' \<mapsto> JString ''a'', ''user'' \<mapsto> JString ''u'',
                       ''expires'' \<mapsto> JNumber (Num 61000),
                       ''lastActive'' \<mapsto> JNumber (Num 5000)]"
proof -
  let ?w = "world0\<lparr>touchListeners := [(''k'', idle_touch)]\<rparr>"
  let ?d = "[''user'' \<mapsto> JString ''u'']"
  let ?ob = "[''id'' \<mapsto> JString ''a'', ''user'' \<mapsto> JString ''u'',
              ''expires'' \<mapsto> JNumber (Num 61000), ''lastActive'' \<mapsto> JNumber (Num 1000)]"
  let ?w1 = "world0\<lparr>touchListeners := [(''k'', idle_touch)], nanoid_calls := 1, heap := [?ob]\<rparr>"
  have c: "Session_create ?w ?d [expires 60, idle 60] = Inr (0, ?w1)"
    by (simp add: Session_create_def Session_id_def nanoid_def alloc_def expires_def idle_def
        expires_create_def idle_create_def set_prop_def world0_def rt0_def)
  have m: "idle 60 \<in> set [expires 60, idle 60]" by simp
  have l: "0 < length (heap ?w1)" by simp
  have r: "map_values (touchListeners ?w) = [idle_touch]"
    by (simp add: map_values_def)
  have rt: "runtime world0 = rt0" by (simp add: world0_def)
  from idle_touch_lastActive [OF c m l r, of 5000] obtain w3 where
    "Session_touch (?w1\<lparr>runtime := (runtime ?w1)\<lparr>Date_now := 5000\<rparr>\<rparr>) 0 = Inr (0, w3)"
    "heap w3 ! 0 = (heap ?w1 ! 0)(''lastActive'' \<mapsto> JNumber (Num 5000))"
    by blast
  then show ?thesis
    by (auto simp: rt)
qed

subsection \<open>C10: a validator that throws inside \<^verbatim>\<open>Session.get\<close>\<close>

text \<open>
  Claim C10. When the secret is set, the cookie is present and unsealing it succeeds, and
  a registered validator throws on the unsealed session (the validators before it having
  answered true), \<^verbatim>\<open>Session.get\<close> neither throws nor returns \<open>ValidationFailed\<close>: the
  \<^verbatim>\<open>catch\<close> that guards unsealing catches the exception, and \<^verbatim>\<open>get\<close> returns
  \<open>InvalidCookie\<close>.
\<close>

theorem Session_get_validator_throws:
  assumes "secret_set w" and "sessionSecret w = Some pw"
    and "store_get cs sessionName = Some c"
    and "Iron_unseal w (crypto w) (cookie_value c) pw = Inr payload"
    and "map_values (validators w) = pre @ v # post"
    and "\<forall>u\<in>set pre. u (runtime w) payload = Inr True"
    and "v (runtime w) payload = Inl e"
  shows "Session_get w cs = Inr (Err InvalidCookie, w\<lparr>heap := heap w @ [payload]\<rparr>)"
  using assms by (simp add: Session_get_unsealed run_validators_first_throw)

theorem Session_get_validator_throws_witness:
  "Session_get
     (world1\<lparr>validators := [(''k1'', accepting), (''k2'', throwing), (''k3'', rejecting)]\<rparr>)
     (ResponseCookies [''session'' \<mapsto> cookie0]) =
   Inr (Err InvalidCookie,
        world1\<lparr>validators := [(''k1'', accepting), (''k2'', throwing), (''k3'', rejecting)],
               heap := [session0, session0]\<rparr>)"
proof -
  let ?w = "world1\<lparr>validators := [(''k1'', accepting), (''k2'', throwing), (''k3'', rejecting)]\<rparr>"
  have "Session_get ?w (ResponseCookies [''session'' \<mapsto> cookie0]) =
      Inr (Err InvalidCookie, ?w\<lparr>heap := heap ?w @ [session0]\<rparr>)"
  proof (rule Session_get_validator_throws [where pw = secret0 and c = cookie0
        and pre = "[accepting]" and v = throwing and post = "[rejecting]"
        and e = "Error ''validator failed''"])
    show "secret_set ?w" by (simp add: secret_set_def example_defs)
    show "sessionSecret ?w = Some secret0" by (simp add: example_defs)
    show "store_get (ResponseCookies [''session'' \<mapsto> cookie0]) sessionName = Some cookie0"
      by (simp add: sessionName_def)
    show "Iron_unseal ?w (crypto ?w) (cookie_value cookie0) secret0 = Inr session0"
      by (simp add: world1_def world0_def cookie0_def)
    show "map_values (validators ?w) = [accepting] @ throwing # [rejecting]"
      by (simp add: map_values_def)
    show "\<forall>u\<in>set [accepting]. u (runtime ?w) session0 = Inr True"
      by (simp add: accepting_def)
    show "throwing (runtime ?w) session0 = Inl (Error ''validator failed'')"
      by (simp add: throwing_def)
  qed
  then show ?thesis by (simp add: world1_def)
qed

end
